theory Spec2Isabelle
  imports Main "HOL-Library.Sublist"
begin

section \<open>Python strings\<close>

text \<open>
  A Python \<open>str\<close> is a sequence of Unicode code points; it is modelled as a list of
  natural numbers, so that \<open>len\<close> is \<open>length\<close> and every code point of the gazette's
  Portuguese text (\<open>U+00FA\<close> and the like) is one element. \<open>u\<close> reads an ASCII literal.
\<close>

type_synonym pystr = "nat list"

definition u :: "string \<Rightarrow> pystr" where
  "u s = map of_char s"

text \<open>
  The code points for which \<open>str.isspace\<close> holds; \<open>str.split()\<close> and \<open>str.strip()\<close>
  use this set.
\<close>

definition py_isspace :: "nat \<Rightarrow> bool" where
  "py_isspace c \<longleftrightarrow>
     (9 \<le> c \<and> c \<le> 13) \<or> (28 \<le> c \<and> c \<le> 32) \<or> c = 133 \<or> c = 160 \<or> c = 5760 \<or>
     (8192 \<le> c \<and> c \<le> 8202) \<or> c = 8232 \<or> c = 8233 \<or> c = 8239 \<or> c = 8287 \<or> c = 12288"

text \<open>
  \<open>text.split()\<close>: skip a run of whitespace, take the run of other characters as a
  word, repeat. No word is empty.
\<close>

function split_ws :: "pystr \<Rightarrow> pystr list" where
  "split_ws [] = []"
| "split_ws (c # cs) =
     (if py_isspace c then split_ws cs
      else (c # takeWhile (\<lambda>x. \<not> py_isspace x) cs)
             # split_ws (dropWhile (\<lambda>x. \<not> py_isspace x) cs))"
  by pat_completeness auto
termination
  by (relation "measure length") (auto simp: length_dropWhile_le le_imp_less_Suc)

text \<open>\<open>text.split('\n')\<close>: every separator ends a (possibly empty) line.\<close>

fun split_sep :: "nat \<Rightarrow> pystr \<Rightarrow> pystr list" where
  "split_sep sep [] = [[]]"
| "split_sep sep (c # cs) =
     (if c = sep then [] # split_sep sep cs
      else (case split_sep sep cs of [] \<Rightarrow> [[c]] | w # ws \<Rightarrow> (c # w) # ws))"

text \<open>\<open>sep.join(words)\<close>.\<close>

fun py_join :: "pystr \<Rightarrow> pystr list \<Rightarrow> pystr" where
  "py_join sep [] = []"
| "py_join sep [w] = w"
| "py_join sep (w # v # ws) = w @ sep @ py_join sep (v # ws)"

text \<open>\<open>s.strip()\<close>: whitespace removed at both ends.\<close>

definition py_strip :: "pystr \<Rightarrow> pystr" where
  "py_strip s = rev (dropWhile py_isspace (rev (dropWhile py_isspace s)))"

text \<open>\<open>sub in s\<close>: \<open>sub\<close> occurs somewhere in \<open>s\<close> as a contiguous run.\<close>

fun py_in :: "pystr \<Rightarrow> pystr \<Rightarrow> bool" where
  "py_in sub [] = (sub = [])"
| "py_in sub (c # cs) = (prefix sub (c # cs) \<or> py_in sub cs)"

text \<open>\<open>s.find(sub)\<close>: the lowest index at which \<open>sub\<close> starts, or \<open>-1\<close>.\<close>

fun find_from :: "pystr \<Rightarrow> pystr \<Rightarrow> nat \<Rightarrow> int" where
  "find_from sub [] i = (if sub = [] then int i else - 1)"
| "find_from sub (c # cs) i =
     (if prefix sub (c # cs) then int i else find_from sub cs (Suc i))"

definition py_find :: "pystr \<Rightarrow> pystr \<Rightarrow> int" where
  "py_find s sub = find_from sub s 0"

text \<open>
  \<open>s[a:b]\<close> for integer bounds: a negative bound counts from the end, and both bounds are
  clamped to \<open>0 .. len(s)\<close>, as Python's slicing does.
\<close>

definition slice_index :: "nat \<Rightarrow> int \<Rightarrow> nat" where
  "slice_index n i = (if i < 0 then nat (max 0 (i + int n)) else min n (nat i))"

definition py_slice :: "pystr \<Rightarrow> int \<Rightarrow> int \<Rightarrow> pystr" where
  "py_slice s a b =
     (let lo = slice_index (length s) a; hi = slice_index (length s) b
      in take (hi - lo) (drop lo s))"

text \<open>
  \<open>str.lower\<close> and \<open>str.isupper\<close> read the case tables of the Unicode database, which are
  not part of the repository: the scan takes them as a parameter, and every general
  theorem below holds for whatever the tables are.
\<close>

record casing =
  str_lower :: "pystr \<Rightarrow> pystr"
  str_isupper :: "pystr \<Rightarrow> bool"

text \<open>
  The tables for strings of Basic Latin and Latin-1 Supplement code points (below 256),
  which cover the catalog and the concrete pages evaluated below. \<open>isupper\<close> is Python's:
  no lower-case character and at least one upper-case one.
\<close>

definition latin1_isupper :: "nat \<Rightarrow> bool" where
  "latin1_isupper c \<longleftrightarrow>
     (65 \<le> c \<and> c \<le> 90) \<or> (192 \<le> c \<and> c \<le> 214) \<or> (216 \<le> c \<and> c \<le> 222)"

definition latin1_islower :: "nat \<Rightarrow> bool" where
  "latin1_islower c \<longleftrightarrow>
     (97 \<le> c \<and> c \<le> 122) \<or> c = 170 \<or> c = 181 \<or> c = 186 \<or>
     (223 \<le> c \<and> c \<le> 246) \<or> (248 \<le> c \<and> c \<le> 255)"

definition latin1_lower :: "nat \<Rightarrow> nat" where
  "latin1_lower c = (if latin1_isupper c then c + 32 else c)"

definition latin1 :: casing where
  "latin1 =
     \<lparr>str_lower = map latin1_lower,
      str_isupper = (\<lambda>s. list_all (\<lambda>c. \<not> latin1_islower c) s \<and> list_ex latin1_isupper s)\<rparr>"

section \<open>Paths, dates and dictionaries\<close>

text \<open>\<open>os.path.basename\<close> and \<open>os.path.join\<close> (two arguments) on a POSIX system.\<close>

definition basename :: "pystr \<Rightarrow> pystr" where
  "basename p = rev (takeWhile (\<lambda>c. c \<noteq> 47) (rev p))"

definition path_join :: "pystr \<Rightarrow> pystr \<Rightarrow> pystr" where
  "path_join a b =
     (if (case b of [] \<Rightarrow> False | c # _ \<Rightarrow> c = 47) then b
      else if a = [] \<or> last a = 47 then a @ b
      else a @ [47] @ b)"

text \<open>
  A reading of \<open>datetime.now()\<close>, and the two formats the scripts print it in:
  \<open>"%Y-%m-%d"\<close> and \<open>"%Y%m%d_%H%M"\<close> (zero-padded decimal fields).
\<close>

record datetime =
  year :: nat
  month :: nat
  day :: nat
  hour :: nat
  minute :: nat

fun zpad :: "nat \<Rightarrow> nat \<Rightarrow> pystr" where
  "zpad 0 n = []"
| "zpad (Suc w) n = zpad w (n div 10) @ [48 + n mod 10]"

definition strftime_date :: "datetime \<Rightarrow> pystr" where
  "strftime_date d = zpad 4 (year d) @ u ''-'' @ zpad 2 (month d) @ u ''-'' @ zpad 2 (day d)"

definition strftime_stamp :: "datetime \<Rightarrow> pystr" where
  "strftime_stamp d =
     zpad 4 (year d) @ zpad 2 (month d) @ zpad 2 (day d) @ u ''_'' @ zpad 2 (hour d) @ zpad 2 (minute d)"

text \<open>
  The values the scripts store in a finding, and a finding itself: a Python \<open>dict\<close> with
  string keys, kept in insertion order (the order \<open>json.dump\<close> writes).
\<close>

datatype pyval = PyInt int | PyStr pystr

type_synonym pydict = "(pystr \<times> pyval) list"

definition get :: "pydict \<Rightarrow> string \<Rightarrow> pyval option" where
  "get d k = map_of d (u k)"

section \<open>The processor and its keyword catalog\<close>

record info =
  termos :: "pystr list"
  impacto :: pystr

record processor =
  base_url :: pystr
  download_dir :: pystr
  reports_dir :: pystr
  keywords_py :: "(pystr \<times> info) list"

text \<open>The two scripts, \<open>bot.py\<close> and \<open>bot1.py\<close>, define the same class with differences.\<close>

datatype script = Bot | Bot1

definition concursos_selecoes :: "pystr \<times> info" where
  "concursos_selecoes =
     (u ''CONCURSOS_SELECOES'',
      \<lparr>termos = [u ''concurso p'' @ [250] @ u ''blico'', u ''processo seletivo'',
                 u ''nomea'' @ [231, 227] @ u ''o'', u ''homologa'' @ [231, 227] @ u ''o'',
                 u ''edital de abertura'', u ''convoca'' @ [231, 227] @ u ''o''],
       impacto = u ''ALTO''\<rparr>)"

definition saude_biotec :: "pystr \<times> info" where
  "saude_biotec =
     (u ''SAUDE_BIOTEC'',
      \<lparr>termos = [u ''secretaria de sa'' @ [250] @ u ''de'', u ''biotecnologia'',
                 u ''medicamentos'', u ''insumos'', u ''laborat'' @ [243] @ u ''rio'',
                 u ''vacina'' @ [231, 227] @ u ''o'', u ''epidemiol'' @ [243] @ u ''gica''],
       impacto = u ''MEDIO''\<rparr>)"

definition educacao_pesquisa :: "pystr \<times> info" where
  "educacao_pesquisa =
     (u ''EDUCACAO_PESQUISA'',
      \<lparr>termos = [u ''fapesq'', u ''bolsa de pesquisa'', u ''mestrado'', u ''doutorado'',
                 u ''universidade de pernambuco'',
                 u ''educa'' @ [231, 227] @ u ''o b'' @ [225] @ u ''sica''],
       impacto = u ''MEDIO''\<rparr>)"

definition regulacao_leis :: "pystr \<times> info" where
  "regulacao_leis =
     (u ''REGULACAO_LEIS'',
      \<lparr>termos = [u ''decreto n'' @ [186], u ''lei n'' @ [186], u ''portaria n'' @ [186],
                 u ''resolu'' @ [231, 227] @ u ''o''],
       impacto = u ''BAIXO''\<rparr>)"

definition monitoramento_pessoal :: "pystr \<times> info" where
  "monitoramento_pessoal =
     (u ''MONITORAMENTO_PESSOAL'', \<lparr>termos = [u ''SEU NOME''], impacto = u ''ALTO''\<rparr>)"

text \<open>\<open>__init__\<close>; \<open>cwd\<close> is what \<open>os.getcwd()\<close> returns.\<close>

definition init :: "script \<Rightarrow> pystr \<Rightarrow> processor" where
  "init v cwd =
     \<lparr>base_url = u ''https://diariooficial.cepe.com.br/diariooficialweb/#/home?diario=MQ%3D%3D'',
      download_dir = path_join cwd (u ''downloads''),
      reports_dir = path_join cwd (u ''relatorios''),
      keywords_py =
        (case v of
           Bot \<Rightarrow> [concursos_selecoes, saude_biotec, educacao_pesquisa, regulacao_leis]
         | Bot1 \<Rightarrow> [monitoramento_pessoal, concursos_selecoes, saude_biotec,
                     educacao_pesquisa, regulacao_leis])\<rparr>"

section \<open>The normalizer\<close>

text \<open>\<open>clean_text\<close>; the argument is \<open>None\<close> or a string.\<close>

definition clean_text :: "pystr option \<Rightarrow> pystr" where
  "clean_text text =
     (case text of
        None \<Rightarrow> []
      | Some t \<Rightarrow> if t = [] then [] else py_join (u '' '') (split_ws t))"

section \<open>The scan of a document\<close>

text \<open>
  The topic of a page: the loop over \<open>lines[:5]\<close> with its \<open>break\<close>, starting from the
  default \<open>"GERAL"\<close>.
\<close>

fun topico_loop :: "casing \<Rightarrow> pystr list \<Rightarrow> pystr" where
  "topico_loop L [] = u ''GERAL''"
| "topico_loop L (line # rest) =
     (if str_isupper L line \<and> length line > 5 then line else topico_loop L rest)"

definition topico_of :: "casing \<Rightarrow> pystr \<Rightarrow> pystr" where
  "topico_of L text = topico_loop L (take 5 (split_sep 10 text))"

text \<open>
  The variables of one iteration of the page loop that the inner loops read: the index
  \<open>i\<close> of \<open>enumerate\<close>, \<open>topico_estimado\<close>, \<open>text_clean\<close> and \<open>text_lower\<close>.
\<close>

record page =
  idx :: nat
  topico_estimado :: pystr
  text_clean :: pystr
  text_lower :: pystr

text \<open>
  What the scan has built so far: the two result lists, and how many times it has read
  the clock. The clock is a parameter \<open>clk\<close>: \<open>clk k\<close> is what the \<open>k\<close>-th call of
  \<open>datetime.now()\<close> in the scan returns.
\<close>

record scan =
  extracted_data :: "pydict list"
  concursos_data :: "pydict list"
  ticks :: nat

text \<open>
  The dictionary \<open>entry\<close>. In \<open>bot1.py\<close> it starts with the key \<open>arquivo\<close>; in \<open>bot.py\<close>
  it does not have that key.
\<close>

definition entry ::
  "script \<Rightarrow> pystr \<Rightarrow> page \<Rightarrow> pystr \<Rightarrow> pystr \<Rightarrow> pystr \<Rightarrow> pystr \<Rightarrow> pystr \<Rightarrow> pydict" where
  "entry v pdf_path pg categoria termo imp snippet date =
     (case v of Bot \<Rightarrow> [] | Bot1 \<Rightarrow> [(u ''arquivo'', PyStr (basename pdf_path))]) @
     [(u ''pagina'', PyInt (int (idx pg) + 1)),
      (u ''topico_detectado'', PyStr (topico_estimado pg)),
      (u ''categoria'', PyStr categoria),
      (u ''termo_encontrado'', PyStr termo),
      (u ''impacto'', PyStr imp),
      (u ''resumo_snippet'', PyStr (py_strip snippet @ u ''...'')),
      (u ''data_processamento'', PyStr date)]"

text \<open>
  The body of \<open>if termo in text_lower:\<close> up to the \<open>break\<close>. (\<open>bot.py\<close> also updates two
  locals of the page, \<open>found_categories\<close> and \<open>impact_level\<close>, that nothing reads.)
\<close>

definition found ::
  "script \<Rightarrow> (nat \<Rightarrow> datetime) \<Rightarrow> pystr \<Rightarrow> page \<Rightarrow> pystr \<Rightarrow> info \<Rightarrow> pystr \<Rightarrow> scan \<Rightarrow> scan" where
  "found v clk pdf_path pg categoria info termo st =
     (let start_idx = py_find (text_lower pg) termo;
          start_ctx = max 0 (start_idx - 100);
          end_ctx = min (int (length (text_clean pg))) (start_idx + 200);
          snippet = py_slice (text_clean pg) start_ctx end_ctx;
          e = entry v pdf_path pg categoria termo (impacto info) snippet
                (strftime_date (clk (ticks st)))
      in \<lparr>extracted_data = extracted_data st @ [e],
          concursos_data =
            (if impacto info = u ''ALTO'' then concursos_data st @ [e] else concursos_data st),
          ticks = Suc (ticks st)\<rparr>)"

text \<open>\<open>for termo in info['termos']\<close>: the first term found ends the loop.\<close>

fun termos_loop ::
  "script \<Rightarrow> (nat \<Rightarrow> datetime) \<Rightarrow> pystr \<Rightarrow> page \<Rightarrow> pystr \<Rightarrow> info \<Rightarrow> pystr list \<Rightarrow> scan \<Rightarrow> scan"
  where
  "termos_loop v clk pdf_path pg categoria info [] st = st"
| "termos_loop v clk pdf_path pg categoria info (termo # rest) st =
     (if py_in termo (text_lower pg) then found v clk pdf_path pg categoria info termo st
      else termos_loop v clk pdf_path pg categoria info rest st)"

text \<open>\<open>for categoria, info in self.keywords.items()\<close>.\<close>

fun categorias_loop ::
  "script \<Rightarrow> (nat \<Rightarrow> datetime) \<Rightarrow> pystr \<Rightarrow> page \<Rightarrow> (pystr \<times> info) list \<Rightarrow> scan \<Rightarrow> scan"
  where
  "categorias_loop v clk pdf_path pg [] st = st"
| "categorias_loop v clk pdf_path pg ((categoria, info) # rest) st =
     categorias_loop v clk pdf_path pg rest
       (termos_loop v clk pdf_path pg categoria info (termos info) st)"

text \<open>
  \<open>for i, page in enumerate(pdf.pages)\<close>; each element of the list is what
  \<open>page.extract_text()\<close> returns for that page, \<open>None\<close> or a string.
\<close>

definition page_of :: "casing \<Rightarrow> nat \<Rightarrow> pystr \<Rightarrow> page" where
  "page_of L i text =
     (let cleaned = clean_text (Some text)
      in \<lparr>idx = i, topico_estimado = topico_of L text,
          text_clean = cleaned, text_lower = str_lower L cleaned\<rparr>)"

fun pages_loop ::
  "script \<Rightarrow> casing \<Rightarrow> (nat \<Rightarrow> datetime) \<Rightarrow> processor \<Rightarrow> pystr \<Rightarrow> nat \<Rightarrow> pystr option list
     \<Rightarrow> scan \<Rightarrow> scan" where
  "pages_loop v L clk self pdf_path i [] st = st"
| "pages_loop v L clk self pdf_path i (None # rest) st =
     pages_loop v L clk self pdf_path (Suc i) rest st"
| "pages_loop v L clk self pdf_path i (Some text # rest) st =
     (if text = [] then pages_loop v L clk self pdf_path (Suc i) rest st
      else pages_loop v L clk self pdf_path (Suc i) rest
             (categorias_loop v clk pdf_path (page_of L i text) (keywords_py self) st))"

definition analyze_pdf ::
  "script \<Rightarrow> casing \<Rightarrow> (nat \<Rightarrow> datetime) \<Rightarrow> processor \<Rightarrow> pystr \<Rightarrow> pystr option list
     \<Rightarrow> pydict list \<times> pydict list" where
  "analyze_pdf v L clk self pdf_path pages =
     (let st = pages_loop v L clk self pdf_path 0 pages
                 \<lparr>extracted_data = [], concursos_data = [], ticks = 0\<rparr>
      in (extracted_data st, concursos_data st))"

section \<open>The reports\<close>

text \<open>
  What \<open>generate_reports\<close> hands to the file system, one value per file: the rows given
  to \<open>json.dump\<close>, the rows and the separator given to \<open>DataFrame.to_csv\<close>, the rows of
  the frame that the grouped text summary is computed from. The serialisation itself is
  the libraries' and is not modelled; writing is taken to succeed, and the rows are taken
  to have the columns the summary groups by, as the findings of the scan do. \<open>now\<close> is
  the reading of the clock at the start of the call. Messages printed are left out.
\<close>

datatype artifact =
  JsonDump pystr "pydict list"
| ToCsv pystr pystr "pydict list"
| TopicSummary pystr "pydict list"

fun is_csv :: "artifact \<Rightarrow> bool" where
  "is_csv (ToCsv path sep rows) = True"
| "is_csv (JsonDump path rows) = False"
| "is_csv (TopicSummary path rows) = False"

text \<open>
  \<open>generate_reports\<close> of \<open>bot.py\<close>. A frame is \<open>empty\<close> when it has no row or no
  column.
\<close>

definition generate_reports ::
  "processor \<Rightarrow> datetime \<Rightarrow> pydict list \<Rightarrow> pydict list \<Rightarrow> pystr \<Rightarrow> artifact list" where
  "generate_reports self now data concursos filename_base =
     (let timestamp = strftime_stamp now;
          json_path = path_join (reports_dir self)
                        (u ''relatorio_geral_'' @ timestamp @ u ''.json'');
          csv_path = path_join (reports_dir self)
                       (u ''ALERTA_CONCURSOS_'' @ timestamp @ u ''.csv'');
          txt_path = path_join (reports_dir self)
                       (u ''resumo_topicos_'' @ timestamp @ u ''.txt'')
      in [JsonDump json_path data] @
         (if concursos = [] then [] else [ToCsv csv_path (u '';'') concursos]) @
         (if list_all (\<lambda>e. e = []) data then [] else [TopicSummary txt_path data]))"

text \<open>\<open>generate_reports\<close> of \<open>bot1.py\<close>: it takes \<open>concursos\<close> and does not read it.\<close>

definition generate_reports1 ::
  "processor \<Rightarrow> datetime \<Rightarrow> pydict list \<Rightarrow> pydict list \<Rightarrow> artifact list" where
  "generate_reports1 self now data concursos =
     (let timestamp = strftime_stamp now
      in if data = [] then []
         else [JsonDump (path_join (reports_dir self)
                 (u ''relatorio_multiplo_'' @ timestamp @ u ''.json'')) data])"

section \<open>Auxiliary notions\<close>

text \<open>A finding of high impact: its \<open>impacto\<close> is \<open>"ALTO"\<close>.\<close>

definition is_alto :: "pydict \<Rightarrow> bool" where
  "is_alto e \<longleftrightarrow> get e ''impacto'' = Some (PyStr (u ''ALTO''))"

text \<open>The findings that the category loop adds for one page.\<close>

definition page_findings ::
  "script \<Rightarrow> (nat \<Rightarrow> datetime) \<Rightarrow> pystr \<Rightarrow> page \<Rightarrow> (pystr \<times> info) list \<Rightarrow> scan \<Rightarrow> pydict list"
  where
  "page_findings v clk pdf_path pg kw st =
     drop (length (extracted_data st))
       (extracted_data (categorias_loop v clk pdf_path pg kw st))"

text \<open>
  For each category that has a term occurring in the lower-cased text, the category with
  the first such term of its list; categories in catalog order.
\<close>

definition first_matches :: "pystr \<Rightarrow> (pystr \<times> info) list \<Rightarrow> (pystr \<times> pystr) list" where
  "first_matches lowered kw =
     List.map_filter
       (\<lambda>(categoria, info). map_option (Pair categoria) (find (\<lambda>t. py_in t lowered) (termos info)))
       kw"

text \<open>
  The specification's wording of the topic label: the first qualifying line among the
  first five non-empty lines.
\<close>

definition topico_spec :: "casing \<Rightarrow> pystr \<Rightarrow> pystr" where
  "topico_spec L text =
     (case find (\<lambda>l. str_isupper L l \<and> length l > 5)
             (take 5 (filter (\<lambda>l. l \<noteq> []) (split_sep 10 text))) of
        None \<Rightarrow> u ''GERAL''
      | Some l \<Rightarrow> l)"

text \<open>
  The specification's wording of the snippet: the slice from 100 characters before to 200
  characters after the first occurrence, clamped, with the suffix.
\<close>

definition snippet_spec :: "pystr \<Rightarrow> pystr \<Rightarrow> pystr \<Rightarrow> pystr" where
  "snippet_spec cleaned lowered termo =
     (let i = py_find lowered termo
      in py_slice cleaned (max 0 (i - 100)) (min (int (length cleaned)) (i + 200)) @ u ''...'')"

text \<open>Concrete inputs: a clock that stands still, and the page of the specification.\<close>

definition clock0 :: "nat \<Rightarrow> datetime" where
  "clock0 k = \<lparr>year = 2026, month = 1, day = 5, hour = 6, minute = 0\<rparr>"

definition clock1 :: "nat \<Rightarrow> datetime" where
  "clock1 k = \<lparr>year = 2026, month = 1, day = 5, hour = 6 + k mod 10, minute = k mod 60\<rparr>"

definition page_saude :: pystr where
  "page_saude =
     u ''SECRETARIA DE SA'' @ [218] @ u ''DE'' @ [10] @
     u ''Abertura de concurso p'' @ [250] @ u ''blico para vagas.''"

text \<open>
  A page on which the term \<open>fapesq\<close> starts at offset 101, with a space at offset 1:
  \<open>"a "\<close>, 99 times \<open>x\<close>, \<open>"fapesq"\<close>.
\<close>

definition filler :: pystr where
  "filler = u ''xxxxxxxxxxxxxxxxxxxxxxxxxxxxxxxxxxxxxxxxxxxxxxxxxxxxxxxxxxxxxxxxxxxxxxxxxxxxxxxxxxxxxxxxxxxxxxxxxxx''"

definition page_long :: pystr where
  "page_long = u ''a '' @ filler @ u ''fapesq''"

text \<open>A word of \<open>split()\<close>: not empty, and free of whitespace.\<close>

definition is_word :: "pystr \<Rightarrow> bool" where
  "is_word w \<longleftrightarrow> w \<noteq> [] \<and> list_all (\<lambda>c. \<not> py_isspace c) w"

section \<open>The normalizer is idempotent\<close>

lemma split_ws_words: "list_all is_word (split_ws s)"
proof (induction s rule: split_ws.induct)
  case 1
  show ?case by simp
next
  case (2 c cs)
  have "list_all (\<lambda>x. \<not> py_isspace x) (takeWhile (\<lambda>x. \<not> py_isspace x) cs)"
    by (auto simp: list_all_iff dest: set_takeWhileD)
  with 2 show ?case by (simp add: is_word_def)
qed

lemma space_isspace: "py_isspace 32"
  by (simp add: py_isspace_def)

lemma split_ws_word_sep:
  assumes "is_word w"
  shows "split_ws (w @ 32 # r) = w # split_ws r"
proof -
  from assms obtain c cs where w: "w = c # cs" and c: "\<not> py_isspace c"
    and cs: "list_all (\<lambda>x. \<not> py_isspace x) cs"
    by (cases w) (auto simp: is_word_def)
  have t: "takeWhile (\<lambda>x. \<not> py_isspace x) (cs @ 32 # r) = cs"
    using cs space_isspace by (induction cs) auto
  have d: "dropWhile (\<lambda>x. \<not> py_isspace x) (cs @ 32 # r) = 32 # r"
    using cs space_isspace by (induction cs) auto
  show ?thesis by (simp add: w c t d space_isspace)
qed

lemma split_ws_word:
  assumes "is_word w"
  shows "split_ws w = [w]"
proof -
  from assms obtain c cs where w: "w = c # cs" and c: "\<not> py_isspace c"
    and cs: "list_all (\<lambda>x. \<not> py_isspace x) cs"
    by (cases w) (auto simp: is_word_def)
  have t: "takeWhile (\<lambda>x. \<not> py_isspace x) cs = cs"
    using cs by (induction cs) auto
  have d: "dropWhile (\<lambda>x. \<not> py_isspace x) cs = []"
    using cs by (induction cs) auto
  show ?thesis by (simp add: w c t d)
qed

lemma split_ws_join:
  "list_all is_word ws \<Longrightarrow> split_ws (py_join (u '' '') ws) = ws"
proof (induction "u '' ''" ws rule: py_join.induct)
  case 1
  show ?case by simp
next
  case (2 w)
  then show ?case by (simp add: split_ws_word)
next
  case (3 w v ws)
  have sp: "u '' '' = [32]" by (simp add: u_def)
  from 3 show ?case by (simp add: sp split_ws_word_sep)
qed


lemma clean_text_same_words: "split_ws (clean_text (Some t)) = split_ws t"
  by (simp add: clean_text_def split_ws_join split_ws_words)

section \<open>What the loops do to the result lists\<close>

lemma get_entry:
  "get (entry v p pg c t imp sn d) ''categoria'' = Some (PyStr c)"
  "get (entry v p pg c t imp sn d) ''termo_encontrado'' = Some (PyStr t)"
  "get (entry v p pg c t imp sn d) ''impacto'' = Some (PyStr imp)"
  "get (entry v p pg c t imp sn d) ''resumo_snippet'' = Some (PyStr (py_strip sn @ u ''...''))"
  by (cases v; simp add: get_def entry_def u_def)+

lemma termos_loop_find:
  "termos_loop v clk p pg c info ts st =
     (case find (\<lambda>t. py_in t (text_lower pg)) ts of
        None \<Rightarrow> st
      | Some t \<Rightarrow> found v clk p pg c info t st)"
  by (induction ts) simp_all

lemma found_alto:
  assumes "concursos_data st = filter is_alto (extracted_data st)"
  shows "concursos_data (found v clk p pg c info t st)
           = filter is_alto (extracted_data (found v clk p pg c info t st))"
  using assms by (simp add: found_def Let_def is_alto_def get_entry)

lemma termos_loop_alto:
  assumes "concursos_data st = filter is_alto (extracted_data st)"
  shows "concursos_data (termos_loop v clk p pg c info ts st)
           = filter is_alto (extracted_data (termos_loop v clk p pg c info ts st))"
  using assms by (simp add: termos_loop_find found_alto split: option.split)

lemma categorias_loop_alto:
  "concursos_data st = filter is_alto (extracted_data st) \<Longrightarrow>
   concursos_data (categorias_loop v clk p pg kw st)
     = filter is_alto (extracted_data (categorias_loop v clk p pg kw st))"
proof (induction kw arbitrary: st)
  case Nil
  then show ?case by simp
next
  case (Cons a kw)
  obtain c info where a: "a = (c, info)" by (cases a)
  show ?case unfolding a categorias_loop.simps
    by (rule Cons.IH) (rule termos_loop_alto [OF Cons.prems])
qed

lemma pages_loop_alto:
  "concursos_data st = filter is_alto (extracted_data st) \<Longrightarrow>
   concursos_data (pages_loop v L clk self p i pages st)
     = filter is_alto (extracted_data (pages_loop v L clk self p i pages st))"
proof (induction pages arbitrary: i st)
  case Nil
  then show ?case by simp
next
  case (Cons pgtext pages)
  show ?case
  proof (cases pgtext)
    case None
    with Cons show ?thesis by simp
  next
    case (Some t)
    with Cons show ?thesis by (simp add: categorias_loop_alto)
  qed
qed

text \<open>
  C1: for every document, the second list that \<open>analyze_pdf\<close> returns is the first
  list filtered by \<open>impacto = "ALTO"\<close>: the same dictionaries, in the same order.
\<close>

theorem high_impact_is_filter:
  "snd (analyze_pdf v L clk self pdf_path pages)
     = filter is_alto (fst (analyze_pdf v L clk self pdf_path pages))"
  by (simp add: analyze_pdf_def Let_def pages_loop_alto)

section \<open>The scan depends on its inputs and on the date only\<close>

lemma found_same:
  assumes "\<forall>k. strftime_date (clk1 k) = strftime_date (clk2 k)"
  shows "found v clk1 p pg c info t st = found v clk2 p pg c info t st"
  using assms by (simp add: found_def)

lemma termos_loop_same:
  assumes "\<forall>k. strftime_date (clk1 k) = strftime_date (clk2 k)"
  shows "termos_loop v clk1 p pg c info ts st = termos_loop v clk2 p pg c info ts st"
  by (simp add: termos_loop_find found_same [OF assms] split: option.split)

lemma categorias_loop_same:
  assumes "\<forall>k. strftime_date (clk1 k) = strftime_date (clk2 k)"
  shows "categorias_loop v clk1 p pg kw st = categorias_loop v clk2 p pg kw st"
proof (induction kw arbitrary: st)
  case Nil
  show ?case by simp
next
  case (Cons a kw)
  obtain c info where a: "a = (c, info)" by (cases a)
  show ?case by (simp add: a Cons.IH termos_loop_same [OF assms])
qed

lemma pages_loop_same:
  assumes "\<forall>k. strftime_date (clk1 k) = strftime_date (clk2 k)"
    and "keywords_py self1 = keywords_py self2"
  shows "pages_loop v L clk1 self1 p i pages st = pages_loop v L clk2 self2 p i pages st"
proof (induction pages arbitrary: i st)
  case Nil
  show ?case by simp
next
  case (Cons pgtext pages)
  show ?case
  proof (cases pgtext)
    case None
    with Cons show ?thesis by simp
  next
    case (Some t)
    with Cons show ?thesis
      by (simp add: assms(2) categorias_loop_same [OF assms(1)])
  qed
qed

text \<open>
  C10: two runs of \<open>analyze_pdf\<close> over the same file name and page texts return the same
  two lists whenever the catalogs are equal and every reading of either clock falls on
  the same date \<open>today\<close>: the rest of the processor's fields, the time of day and the
  number of readings do not reach the result.
\<close>

theorem analyze_pdf_deterministic:
  assumes "\<forall>k. strftime_date (clk1 k) = today \<and> strftime_date (clk2 k) = today"
    and "keywords_py self1 = keywords_py self2"
  shows "analyze_pdf v L clk1 self1 pdf_path pages = analyze_pdf v L clk2 self2 pdf_path pages"
proof -
  from assms(1) have "\<forall>k. strftime_date (clk1 k) = strftime_date (clk2 k)"
    by simp
  then have "pages_loop v L clk1 self1 pdf_path 0 pages st = pages_loop v L clk2 self2 pdf_path 0 pages st"
    for st
    using assms(2) by (rule pages_loop_same)
  then show ?thesis
    by (simp add: analyze_pdf_def)
qed

lemma zpad2: "zpad 2 n = [48 + n div 10 mod 10, 48 + n mod 10]"
  by (simp add: numeral_2_eq_2)

lemma zpad4:
  "zpad 4 n = [48 + n div 10 div 10 div 10 mod 10, 48 + n div 10 div 10 mod 10,
               48 + n div 10 mod 10, 48 + n mod 10]"
proof -
  have h: "(4::nat) = Suc (Suc (Suc (Suc 0)))" by simp
  show ?thesis by (subst h) simp
qed

theorem analyze_pdf_deterministic_witness:
  "(\<forall>k. strftime_date (clock0 k) = u ''2026-01-05'' \<and> strftime_date (clock1 k) = u ''2026-01-05'')
   \<and> keywords_py (init Bot (u ''/srv/doe'')) = keywords_py (init Bot (u ''/home/ana''))
   \<and> analyze_pdf Bot latin1 clock0 (init Bot (u ''/srv/doe'')) (u ''DOE.pdf'') [Some page_saude]
       = analyze_pdf Bot latin1 clock1 (init Bot (u ''/home/ana'')) (u ''DOE.pdf'') [Some page_saude]"
proof -
  have d: "\<forall>k. strftime_date (clock0 k) = u ''2026-01-05'' \<and> strftime_date (clock1 k) = u ''2026-01-05''"
    by (simp add: strftime_date_def clock0_def clock1_def u_def zpad2 zpad4)
  have k: "keywords_py (init Bot (u ''/srv/doe'')) = keywords_py (init Bot (u ''/home/ana''))"
    by (simp add: init_def)
  show ?thesis
    by (rule conjI [OF d conjI [OF k analyze_pdf_deterministic [OF d k]]])
qed

section \<open>One finding per category and page\<close>

lemma termos_loop_grow:
  "\<exists>Y. extracted_data (termos_loop v clk p pg c info ts st) = extracted_data st @ Y \<and>
       map (\<lambda>e. (get e ''categoria'', get e ''termo_encontrado'')) Y
         = (case find (\<lambda>t. py_in t (text_lower pg)) ts of
              None \<Rightarrow> []
            | Some t \<Rightarrow> [(Some (PyStr c), Some (PyStr t))])"
  by (simp add: termos_loop_find found_def Let_def get_entry split: option.split)

lemma categorias_loop_grow:
  "\<exists>X. extracted_data (categorias_loop v clk p pg kw st) = extracted_data st @ X \<and>
       map (\<lambda>e. (get e ''categoria'', get e ''termo_encontrado'')) X
         = map (\<lambda>(c, t). (Some (PyStr c), Some (PyStr t))) (first_matches (text_lower pg) kw)"
proof (induction kw arbitrary: st)
  case Nil
  show ?case by (simp add: first_matches_def)
next
  case (Cons a kw)
  obtain c info where a: "a = (c, info)" by (cases a)
  let ?st = "termos_loop v clk p pg c info (termos info) st"
  from termos_loop_grow [of v clk p pg c info "termos info" st]
  obtain Y where Y: "extracted_data ?st = extracted_data st @ Y"
    "map (\<lambda>e. (get e ''categoria'', get e ''termo_encontrado'')) Y
       = (case find (\<lambda>t. py_in t (text_lower pg)) (termos info) of
            None \<Rightarrow> []
          | Some t \<Rightarrow> [(Some (PyStr c), Some (PyStr t))])"
    by blast
  from Cons.IH [of ?st]
  obtain X where X: "extracted_data (categorias_loop v clk p pg kw ?st) = extracted_data ?st @ X"
    "map (\<lambda>e. (get e ''categoria'', get e ''termo_encontrado'')) X
       = map (\<lambda>(c, t). (Some (PyStr c), Some (PyStr t))) (first_matches (text_lower pg) kw)"
    by blast
  have "extracted_data (categorias_loop v clk p pg (a # kw) st) = extracted_data st @ (Y @ X)"
    by (simp add: a X(1) Y(1))
  moreover have "map (\<lambda>e. (get e ''categoria'', get e ''termo_encontrado'')) (Y @ X)
       = map (\<lambda>(c, t). (Some (PyStr c), Some (PyStr t))) (first_matches (text_lower pg) (a # kw))"
    using X(2) Y(2) by (simp add: a first_matches_def split: option.split)
  ultimately show ?case by blast
qed

lemma length_first_matches: "length (first_matches lowered kw) \<le> length kw"
  by (simp add: first_matches_def List.map_filter_def)

lemma count_first_matches:
  "length (filter (\<lambda>q. fst q = c) (first_matches lowered kw))
     \<le> length (filter (\<lambda>x. fst x = c) kw)"
  by (induction kw) (auto simp: first_matches_def split: option.split)

lemma count_distinct_key:
  "distinct (map fst kw) \<Longrightarrow> length (filter (\<lambda>x. fst x = c) kw) \<le> Suc 0"
proof (induction kw)
  case Nil
  show ?case by simp
next
  case (Cons a kw)
  show ?case
  proof (cases "fst a = c")
    case True
    from Cons.prems have "fst a \<notin> fst ` set kw" by simp
    then have "\<forall>x\<in>set kw. fst x \<noteq> c"
      unfolding True [symmetric] by (metis imageI)
    then have "filter (\<lambda>x. fst x = c) kw = []"
      by (simp add: filter_empty_conv)
    with True show ?thesis by simp
  next
    case False
    with Cons show ?thesis by simp
  qed
qed

text \<open>
  C2: for every page and every catalog (a dictionary: its keys are distinct), the
  category loop adds at most as many findings as the catalog has categories and at most
  one finding per category; the findings are, in catalog order, those of the categories
  with a term occurring in the lower-cased text, each with the first such term of the
  category's list.
\<close>

theorem one_finding_per_category:
  assumes "distinct (map fst kw)"
  shows "length (page_findings v clk pdf_path pg kw st) \<le> length kw
    \<and> (\<forall>c. length (filter (\<lambda>e. get e ''categoria'' = Some (PyStr c))
                     (page_findings v clk pdf_path pg kw st)) \<le> 1)
    \<and> map (\<lambda>e. (get e ''categoria'', get e ''termo_encontrado''))
          (page_findings v clk pdf_path pg kw st)
        = map (\<lambda>(c, t). (Some (PyStr c), Some (PyStr t))) (first_matches (text_lower pg) kw)"
proof -
  let ?proj = "\<lambda>e. (get e ''categoria'', get e ''termo_encontrado'')"
  let ?wrap = "\<lambda>(c, t). (Some (PyStr c), Some (PyStr t))"
  let ?F = "page_findings v clk pdf_path pg kw st"
  let ?M = "first_matches (text_lower pg) kw"
  from categorias_loop_grow [of v clk pdf_path pg kw st]
  obtain X where X: "extracted_data (categorias_loop v clk pdf_path pg kw st) = extracted_data st @ X"
    "map ?proj X = map ?wrap ?M"
    by blast
  have F: "?F = X" by (simp add: page_findings_def X(1))
  have m: "map ?proj ?F = map ?wrap ?M" using X(2) F by simp
  have "length ?F = length (map ?proj ?F)" by simp
  also have "\<dots> = length ?M" by (simp add: m)
  finally have len: "length ?F \<le> length kw"
    using length_first_matches [of "text_lower pg" kw] by simp
  have one: "length (filter (\<lambda>e. get e ''categoria'' = Some (PyStr c)) ?F) \<le> 1" for c
  proof -
    have "length (filter (\<lambda>e. get e ''categoria'' = Some (PyStr c)) ?F)
            = length (filter (\<lambda>q. fst q = Some (PyStr c)) (map ?proj ?F))"
      by (simp add: filter_map comp_def)
    also have "\<dots> = length (filter (\<lambda>q. fst q = Some (PyStr c)) (map ?wrap ?M))"
      by (simp only: m)
    also have "\<dots> = length (filter (\<lambda>q. fst q = c) ?M)"
      by (simp add: filter_map comp_def case_prod_beta)
    also have "\<dots> \<le> length (filter (\<lambda>x. fst x = c) kw)"
      by (rule count_first_matches)
    also have "\<dots> \<le> 1"
      using count_distinct_key [OF assms] by simp
    finally show ?thesis .
  qed
  from len one m show ?thesis by blast
qed

section \<open>The topic of a page\<close>

lemma topico_loop_find:
  "topico_loop L ls =
     (case find (\<lambda>l. str_isupper L l \<and> length l > 5) ls of None \<Rightarrow> u ''GERAL'' | Some l \<Rightarrow> l)"
  by (induction ls) simp_all

text \<open>
  C4, as amended: for every page, the topic is derived from the raw page text by scanning
  its first five lines in order, empty lines counted among the five; the first line that
  \<open>isupper()\<close> accepts and that is longer than 5 characters is the topic, and without
  such a line the topic is \<open>"GERAL"\<close>.
\<close>

theorem topico_first_five_lines:
  "topico_estimado (page_of L i text) =
     (case find (\<lambda>l. str_isupper L l \<and> length l > 5) (take 5 (split_sep 10 text)) of
        None \<Rightarrow> u ''GERAL''
      | Some l \<Rightarrow> l)"
  by (simp add: page_of_def Let_def topico_of_def topico_loop_find)

text \<open>
  C4 as stated fails: on a page that starts with five empty lines followed by the line
  \<open>SECRETARIA\<close>, that line is the first non-empty one, upper-case and 10 characters
  long, yet the topic is \<open>"GERAL"\<close>.
\<close>

theorem topico_blank_lines_counterexample:
  "topico_estimado (page_of latin1 0 ([10, 10, 10, 10, 10] @ u ''SECRETARIA'')) = u ''GERAL''
   \<and> topico_spec latin1 ([10, 10, 10, 10, 10] @ u ''SECRETARIA'') = u ''SECRETARIA''
   \<and> topico_estimado (page_of latin1 0 ([10, 10, 10, 10, 10] @ u ''SECRETARIA''))
       \<noteq> topico_spec latin1 ([10, 10, 10, 10, 10] @ u ''SECRETARIA'')"
  by (simp add: page_of_def Let_def topico_of_def topico_spec_def u_def latin1_def
      latin1_islower_def latin1_isupper_def)

section \<open>The snippet\<close>

lemma find_from_first:
  "py_in sub s \<Longrightarrow>
   \<exists>i\<le>length s. find_from sub s k = int (k + i) \<and> prefix sub (drop i s) \<and>
       (\<forall>j<i. \<not> prefix sub (drop j s))"
proof (induction s arbitrary: k)
  case Nil
  then show ?case by simp
next
  case (Cons c cs)
  show ?case
  proof (cases "prefix sub (c # cs)")
    case True
    then have "find_from sub (c # cs) k = int (k + 0) \<and> prefix sub (drop 0 (c # cs)) \<and>
       (\<forall>j<0. \<not> prefix sub (drop j (c # cs)))"
      by simp
    then show ?thesis by blast
  next
    case False
    with Cons.prems have "py_in sub cs" by simp
    from Cons.IH [OF this, of "Suc k"]
    obtain i where i: "i \<le> length cs" "find_from sub cs (Suc k) = int (Suc k + i)"
      "prefix sub (drop i cs)" "\<forall>j<i. \<not> prefix sub (drop j cs)"
      by blast
    have "\<not> prefix sub (drop j (c # cs))" if "j < Suc i" for j
      using that False i(4) by (cases j) simp_all
    with i False have "Suc i \<le> length (c # cs) \<and> find_from sub (c # cs) k = int (k + Suc i) \<and>
       prefix sub (drop (Suc i) (c # cs)) \<and> (\<forall>j<Suc i. \<not> prefix sub (drop j (c # cs)))"
      by simp
    then show ?thesis by blast
  qed
qed

lemma py_find_first:
  assumes "py_in sub s"
  shows "py_find s sub = int (nat (py_find s sub)) \<and> nat (py_find s sub) \<le> length s \<and>
     prefix sub (drop (nat (py_find s sub)) s) \<and>
     (\<forall>j<nat (py_find s sub). \<not> prefix sub (drop j s))"
proof -
  from find_from_first [OF assms, of 0]
  obtain i where i: "i \<le> length s" "find_from sub s 0 = int i"
    "prefix sub (drop i s)" "\<forall>j<i. \<not> prefix sub (drop j s)"
    by auto
  then show ?thesis by (simp add: py_find_def)
qed

lemma slice_window:
  "py_slice s (max 0 (int i - 100)) (min (int (length s)) (int i + 200))
     = take (min (length s) (i + 200) - (i - 100)) (drop (i - 100) s)"
proof -
  have lo: "slice_index (length s) (max 0 (int i - 100)) = min (length s) (i - 100)"
    by (auto simp: slice_index_def)
  have hi: "slice_index (length s) (min (int (length s)) (int i + 200)) = min (length s) (i + 200)"
    by (auto simp: slice_index_def)
  have "take (min (length s) (i + 200) - min (length s) (i - 100)) (drop (min (length s) (i - 100)) s)
          = take (min (length s) (i + 200) - (i - 100)) (drop (i - 100) s)"
  proof (cases "i - 100 \<le> length s")
    case True
    then show ?thesis by (simp add: min_absorb2)
  next
    case False
    then show ?thesis by simp
  qed
  then show ?thesis
    unfolding py_slice_def Let_def lo hi .
qed

text \<open>
  C5, as amended: when \<open>t\<close> is the first term of a category's list that occurs in the
  lower-cased normalized text, the term loop appends exactly one finding, for \<open>t\<close>. Its
  snippet is cut at the first occurrence \<open>i\<close> of \<open>t\<close> in the lower-cased text, out of the
  normalized original-cased text, from 100 characters before \<open>i\<close> to 200 characters after
  \<open>i\<close>, clamped to the text; the cut is then stripped of leading and trailing whitespace
  and followed by \<open>"..."\<close>. A later occurrence of the term adds nothing.
\<close>

theorem snippet_first_occurrence:
  assumes "find (\<lambda>t. py_in t (text_lower pg)) (termos info) = Some t"
  shows "let i = nat (py_find (text_lower pg) t);
             window = take (min (length (text_clean pg)) (i + 200) - (i - 100))
                        (drop (i - 100) (text_clean pg));
             e = entry v pdf_path pg categoria t (impacto info) window
                   (strftime_date (clk (ticks st)))
         in py_find (text_lower pg) t = int i
          \<and> prefix t (drop i (text_lower pg))
          \<and> (\<forall>j<i. \<not> prefix t (drop j (text_lower pg)))
          \<and> extracted_data (termos_loop v clk pdf_path pg categoria info (termos info) st)
              = extracted_data st @ [e]
          \<and> get e ''termo_encontrado'' = Some (PyStr t)
          \<and> get e ''resumo_snippet'' = Some (PyStr (py_strip window @ u ''...''))"
proof -
  from assms have "py_in t (text_lower pg)"
    by (auto simp: find_Some_iff)
  note f = py_find_first [OF this]
  have w: "py_slice (text_clean pg) (max 0 (py_find (text_lower pg) t - 100))
             (min (int (length (text_clean pg))) (py_find (text_lower pg) t + 200))
           = take (min (length (text_clean pg)) (nat (py_find (text_lower pg) t) + 200)
                    - (nat (py_find (text_lower pg) t) - 100))
               (drop (nat (py_find (text_lower pg) t) - 100) (text_clean pg))"
    using slice_window [of "text_clean pg" "nat (py_find (text_lower pg) t)"] f by simp
  have e: "extracted_data (termos_loop v clk pdf_path pg categoria info (termos info) st)
      = extracted_data st @
        [entry v pdf_path pg categoria t (impacto info)
           (py_slice (text_clean pg) (max 0 (py_find (text_lower pg) t - 100))
             (min (int (length (text_clean pg))) (py_find (text_lower pg) t + 200)))
           (strftime_date (clk (ticks st)))]"
    by (simp add: termos_loop_find assms found_def Let_def)
  show ?thesis
    unfolding Let_def using f e by (simp only: w get_entry) simp
qed

lemma page_of_saude:
  "page_of latin1 0 page_saude =
     \<lparr>idx = 0, topico_estimado = u ''SECRETARIA DE SA'' @ [218] @ u ''DE'',
      text_clean = u ''SECRETARIA DE SA'' @ [218] @ u ''DE Abertura de concurso p'' @ [250]
                     @ u ''blico para vagas.'',
      text_lower = u ''secretaria de sa'' @ [250] @ u ''de abertura de concurso p'' @ [250]
                     @ u ''blico para vagas.''\<rparr>"
  by (simp add: page_of_def topico_of_def clean_text_def u_def latin1_def latin1_islower_def
      latin1_isupper_def latin1_lower_def py_isspace_def page_saude_def Let_def)

theorem snippet_first_occurrence_witness:
  "find (\<lambda>t. py_in t (text_lower (page_of latin1 0 page_saude))) (termos (snd concursos_selecoes))
     = Some (u ''concurso p'' @ [250] @ u ''blico'')
   \<and> py_find (text_lower (page_of latin1 0 page_saude)) (u ''concurso p'' @ [250] @ u ''blico'') = 32
   \<and> get (last (extracted_data
        (termos_loop Bot clock0 (u ''DOE.pdf'') (page_of latin1 0 page_saude)
           (fst concursos_selecoes) (snd concursos_selecoes) (termos (snd concursos_selecoes))
           \<lparr>extracted_data = [], concursos_data = [], ticks = 0\<rparr>))) ''resumo_snippet''
     = Some (PyStr (u ''SECRETARIA DE SA'' @ [218] @ u ''DE Abertura de concurso p'' @ [250]
                     @ u ''blico para vagas....''))"
proof -
  have h: "find (\<lambda>t. py_in t (text_lower (page_of latin1 0 page_saude)))
             (termos (snd concursos_selecoes)) = Some (u ''concurso p'' @ [250] @ u ''blico'')"
    by (simp add: page_of_saude concursos_selecoes_def u_def)
  have i: "py_find (text_lower (page_of latin1 0 page_saude)) (u ''concurso p'' @ [250] @ u ''blico'') = 32"
    by (simp add: page_of_saude py_find_def u_def)
  have c: "get (last (extracted_data
        (termos_loop Bot clock0 (u ''DOE.pdf'') (page_of latin1 0 page_saude)
           (fst concursos_selecoes) (snd concursos_selecoes) (termos (snd concursos_selecoes))
           \<lparr>extracted_data = [], concursos_data = [], ticks = 0\<rparr>))) ''resumo_snippet''
     = Some (PyStr (u ''SECRETARIA DE SA'' @ [218] @ u ''DE Abertura de concurso p'' @ [250]
                     @ u ''blico para vagas....''))"
    using snippet_first_occurrence [OF h, of Bot "u ''DOE.pdf''" "fst concursos_selecoes" clock0
        "\<lparr>extracted_data = [], concursos_data = [], ticks = 0\<rparr>"]
    by (simp add: Let_def py_find_def page_of_saude py_strip_def u_def py_isspace_def)
  show ?thesis
    by (rule conjI [OF h conjI [OF i c]])
qed

section \<open>The scan of concrete pages\<close>

lemma page_saude_nonempty: "page_saude \<noteq> []"
  by (simp add: page_saude_def u_def)

lemmas catalog_defs = init_def u_def concursos_selecoes_def saude_biotec_def
  educacao_pesquisa_def regulacao_leis_def monitoramento_pessoal_def

lemmas found_defs = found_def entry_def py_find_def py_slice_def slice_index_def py_strip_def
  py_isspace_def strftime_date_def basename_def clock0_def zpad2 zpad4 Let_def

lemma scan_saude:
  "analyze_pdf Bot latin1 clock0 (init Bot (u ''/srv'')) (u ''DOE.pdf'') [Some page_saude] =
     ([[(u ''pagina'', PyInt 1),
        (u ''topico_detectado'', PyStr (u ''SECRETARIA DE SA'' @ [218] @ u ''DE'')),
        (u ''categoria'', PyStr (u ''CONCURSOS_SELECOES'')),
        (u ''termo_encontrado'', PyStr (u ''concurso p'' @ [250] @ u ''blico'')),
        (u ''impacto'', PyStr (u ''ALTO'')),
        (u ''resumo_snippet'',
         PyStr (u ''SECRETARIA DE SA'' @ [218] @ u ''DE Abertura de concurso p'' @ [250]
                  @ u ''blico para vagas....'')),
        (u ''data_processamento'', PyStr (u ''2026-01-05''))],
       [(u ''pagina'', PyInt 1),
        (u ''topico_detectado'', PyStr (u ''SECRETARIA DE SA'' @ [218] @ u ''DE'')),
        (u ''categoria'', PyStr (u ''SAUDE_BIOTEC'')),
        (u ''termo_encontrado'', PyStr (u ''secretaria de sa'' @ [250] @ u ''de'')),
        (u ''impacto'', PyStr (u ''MEDIO'')),
        (u ''resumo_snippet'',
         PyStr (u ''SECRETARIA DE SA'' @ [218] @ u ''DE Abertura de concurso p'' @ [250]
                  @ u ''blico para vagas....'')),
        (u ''data_processamento'', PyStr (u ''2026-01-05''))]],
      [[(u ''pagina'', PyInt 1),
        (u ''topico_detectado'', PyStr (u ''SECRETARIA DE SA'' @ [218] @ u ''DE'')),
        (u ''categoria'', PyStr (u ''CONCURSOS_SELECOES'')),
        (u ''termo_encontrado'', PyStr (u ''concurso p'' @ [250] @ u ''blico'')),
        (u ''impacto'', PyStr (u ''ALTO'')),
        (u ''resumo_snippet'',
         PyStr (u ''SECRETARIA DE SA'' @ [218] @ u ''DE Abertura de concurso p'' @ [250]
                  @ u ''blico para vagas....'')),
        (u ''data_processamento'', PyStr (u ''2026-01-05''))]])"
  by (simp add: analyze_pdf_def page_saude_nonempty page_of_saude catalog_defs found_defs)

lemma page_long_nonempty: "page_long \<noteq> []"
  by (simp add: page_long_def u_def)

lemma page_of_long:
  "page_of latin1 0 page_long =
     \<lparr>idx = 0, topico_estimado = u ''GERAL'', text_clean = u ''a '' @ filler @ u ''fapesq'',
      text_lower = u ''a '' @ filler @ u ''fapesq''\<rparr>"
  by (simp add: page_of_def topico_of_def clean_text_def u_def latin1_def latin1_islower_def
      latin1_isupper_def latin1_lower_def py_isspace_def page_long_def filler_def Let_def)

lemma scan_long:
  "analyze_pdf Bot latin1 clock0 (init Bot (u ''/srv'')) (u ''DOE.pdf'') [Some page_long] =
     ([[(u ''pagina'', PyInt 1),
        (u ''topico_detectado'', PyStr (u ''GERAL'')),
        (u ''categoria'', PyStr (u ''EDUCACAO_PESQUISA'')),
        (u ''termo_encontrado'', PyStr (u ''fapesq'')),
        (u ''impacto'', PyStr (u ''MEDIO'')),
        (u ''resumo_snippet'', PyStr (filler @ u ''fapesq...'')),
        (u ''data_processamento'', PyStr (u ''2026-01-05''))]],
      [])"
  by (simp add: analyze_pdf_def page_long_nonempty page_of_long catalog_defs found_defs filler_def)


text \<open>
  C5 as stated fails where the cut starts or ends on a space: on the page \<open>"a "\<close>, 99
  times \<open>x\<close>, \<open>"fapesq"\<close> the term starts at offset 101, the cut from offset 1 starts with
  the space, and the snippet of the finding starts 99 characters before the match, not 100.
\<close>

theorem snippet_strip_counterexample:
  "get (hd (fst (analyze_pdf Bot latin1 clock0 (init Bot (u ''/srv'')) (u ''DOE.pdf'')
                  [Some page_long]))) ''termo_encontrado''
     = Some (PyStr (u ''fapesq''))
   \<and> get (hd (fst (analyze_pdf Bot latin1 clock0 (init Bot (u ''/srv'')) (u ''DOE.pdf'')
                    [Some page_long]))) ''resumo_snippet''
     = Some (PyStr (filler @ u ''fapesq...''))
   \<and> snippet_spec (text_clean (page_of latin1 0 page_long)) (text_lower (page_of latin1 0 page_long))
        (u ''fapesq'')
     = u '' '' @ filler @ u ''fapesq...''
   \<and> get (hd (fst (analyze_pdf Bot latin1 clock0 (init Bot (u ''/srv'')) (u ''DOE.pdf'')
                    [Some page_long]))) ''resumo_snippet''
     \<noteq> Some (PyStr (snippet_spec (text_clean (page_of latin1 0 page_long))
                        (text_lower (page_of latin1 0 page_long)) (u ''fapesq'')))"
  by (simp only: scan_long page_of_long)
     (simp add: get_def u_def snippet_spec_def py_find_def py_slice_def slice_index_def Let_def
        filler_def)

theorem one_finding_per_category_witness:
  "distinct (map fst (keywords_py (init Bot1 (u ''/srv''))))
   \<and> length (page_findings Bot1 clock0 (u ''DOE.pdf'') (page_of latin1 0 page_saude)
         (keywords_py (init Bot1 (u ''/srv'')))
         \<lparr>extracted_data = [], concursos_data = [], ticks = 0\<rparr>) \<le> 5"
proof -
  have h: "distinct (map fst (keywords_py (init Bot1 (u ''/srv''))))"
    by (simp add: catalog_defs)
  have n: "length (keywords_py (init Bot1 (u ''/srv''))) = 5"
    by (simp add: init_def)
  show ?thesis
    using h one_finding_per_category [OF h, of Bot1 clock0 "u ''DOE.pdf''"
        "page_of latin1 0 page_saude" "\<lparr>extracted_data = [], concursos_data = [], ticks = 0\<rparr>"]
    by (simp only: n)
qed

text \<open>
  C6: on the single page whose first line is \<open>SECRETARIA DE SAUDE\<close> and whose second line
  is \<open>Abertura de concurso publico para vagas.\<close> (with the accented letters of the
  specification: code point 218 in the first line, 250 in the second), the topic is the
  first line, and the scan with the catalog of \<open>bot.py\<close> returns exactly two findings:
  \<open>CONCURSOS_SELECOES\<close> with the term \<open>concurso publico\<close> (accented) and impact
  \<open>ALTO\<close>, then \<open>SAUDE_BIOTEC\<close> with the term \<open>secretaria de saude\<close> (accented) and
  impact \<open>MEDIO\<close>.
\<close>

theorem page_saude_findings:
  "topico_estimado (page_of latin1 0 page_saude) = u ''SECRETARIA DE SA'' @ [218] @ u ''DE''
   \<and> map (\<lambda>e. (get e ''categoria'', get e ''termo_encontrado'', get e ''impacto''))
       (fst (analyze_pdf Bot latin1 clock0 (init Bot (u ''/srv'')) (u ''DOE.pdf'') [Some page_saude]))
     = [(Some (PyStr (u ''CONCURSOS_SELECOES'')),
         Some (PyStr (u ''concurso p'' @ [250] @ u ''blico'')), Some (PyStr (u ''ALTO''))),
        (Some (PyStr (u ''SAUDE_BIOTEC'')),
         Some (PyStr (u ''secretaria de sa'' @ [250] @ u ''de'')), Some (PyStr (u ''MEDIO'')))]"
  by (simp only: scan_saude page_of_saude) (simp add: get_def u_def)

section \<open>The fields of a finding\<close>

lemma entry_keys:
  "map fst (entry Bot1 p pg c t imp sn d) =
     [u ''arquivo'', u ''pagina'', u ''topico_detectado'', u ''categoria'', u ''termo_encontrado'',
      u ''impacto'', u ''resumo_snippet'', u ''data_processamento'']"
  "map fst (entry Bot p pg c t imp sn d) =
     [u ''pagina'', u ''topico_detectado'', u ''categoria'', u ''termo_encontrado'',
      u ''impacto'', u ''resumo_snippet'', u ''data_processamento'']"
  by (simp_all add: entry_def)

lemma entry_pagina:
  "get (entry v p pg c t imp sn d) ''pagina'' = Some (PyInt (int (idx pg) + 1))"
  by (cases v; simp add: get_def entry_def u_def)

lemma length_py_strip: "length (py_strip s) \<le> length s"
proof -
  have "length (py_strip s) \<le> length (dropWhile py_isspace s)"
    unfolding py_strip_def length_rev using length_dropWhile_le [of py_isspace "rev (dropWhile py_isspace s)"]
    by simp
  also have "\<dots> \<le> length s" by (rule length_dropWhile_le)
  finally show ?thesis .
qed

lemma snippet_length:
  "length (py_strip (take (min (length s) (i + 200) - (i - 100)) (drop (i - 100) s))) \<le> 300"
proof -
  have "length (py_strip (take (min (length s) (i + 200) - (i - 100)) (drop (i - 100) s)))
          \<le> length (take (min (length s) (i + 200) - (i - 100)) (drop (i - 100) s))"
    by (rule length_py_strip)
  also have "\<dots> \<le> min (length s) (i + 200) - (i - 100)"
    by simp
  also have "\<dots> \<le> 300"
    by arith
  finally show ?thesis .
qed

text \<open>
  C7: every finding is to carry the field \<open>arquivo\<close> naming the scanned document. The
  findings of \<open>bot1.py\<close> do; those of \<open>bot.py\<close> have the seven other keys only. On the
  page above, \<open>bot.py\<close> returns two findings, neither with a value for \<open>arquivo\<close>.
\<close>

theorem bot_entry_has_no_arquivo:
  "map (map fst)
     (fst (analyze_pdf Bot latin1 clock0 (init Bot (u ''/srv'')) (u ''DOE.pdf'') [Some page_saude]))
     = [[u ''pagina'', u ''topico_detectado'', u ''categoria'', u ''termo_encontrado'',
         u ''impacto'', u ''resumo_snippet'', u ''data_processamento''],
        [u ''pagina'', u ''topico_detectado'', u ''categoria'', u ''termo_encontrado'',
         u ''impacto'', u ''resumo_snippet'', u ''data_processamento'']]
   \<and> map (\<lambda>e. get e ''arquivo'')
       (fst (analyze_pdf Bot latin1 clock0 (init Bot (u ''/srv'')) (u ''DOE.pdf'') [Some page_saude]))
     = [None, None]"
  by (simp only: scan_saude) (simp add: get_def u_def)

text \<open>
  C3: matching is to ignore letter case whatever the casing of the catalog term. The text
  is lower-cased and the term is not, so the term \<open>"SEU NOME"\<close> of \<open>bot1.py\<close> is not
  found on a page that reads \<open>SEU NOME\<close>: the scan of that page returns nothing.
\<close>

theorem upper_case_term_never_matches:
  "text_lower (page_of latin1 0 (u ''SEU NOME'')) = u ''seu nome''
   \<and> termos (snd monitoramento_pessoal) = [u ''SEU NOME'']
   \<and> analyze_pdf Bot1 latin1 clock0 (init Bot1 (u ''/srv'')) (u ''DOE.pdf'') [Some (u ''SEU NOME'')]
     = ([], [])"
  by (simp add: analyze_pdf_def page_of_def topico_of_def clean_text_def latin1_def
      latin1_islower_def latin1_isupper_def latin1_lower_def py_isspace_def catalog_defs Let_def)

section \<open>The reports written\<close>

lemma bot_writes_csv:
  "filter is_csv (generate_reports self now data concursos filename_base) =
     (if concursos = [] then []
      else [ToCsv (path_join (reports_dir self)
                     (u ''ALERTA_CONCURSOS_'' @ strftime_stamp now @ u ''.csv''))
              (u '';'') concursos])"
  by (simp add: generate_reports_def Let_def)

text \<open>
  C9: a non-empty high-impact list is to be written as a semicolon-delimited file, and an
  empty one writes no file. \<open>generate_reports\<close> of \<open>bot.py\<close> does so (above); that of
  \<open>bot1.py\<close> writes no such file, whatever the list.
\<close>

theorem bot1_writes_no_csv:
  "filter is_csv (generate_reports1 self now data concursos) = []"
  by (simp add: generate_reports1_def Let_def)

end
